theory Spec2Isabelle
  imports Complex_Main "HOL-Library.Word"
begin

section \<open>Cells, rows and frames\<close>

text \<open>
  The pipeline of \<^verbatim>\<open>scripts/etl_northwind.py\<close> works on pandas data frames whose
  columns are found by name at run time. A frame is modelled as the list of its column
  names and the list of its rows; a row gives a cell for every column name, and only the
  cells of the frame's own columns are ever read. A finite number, an \<^verbatim>\<open>int64\<close> or a
  \<^verbatim>\<open>float64\<close> value, is the rational it denotes; the two infinities of
  \<^verbatim>\<open>float64\<close> are cells of their own. A Python \<^verbatim>\<open>bool\<close> is the number 0 or 1
  (as in Python, where \<^verbatim>\<open>True == 1\<close>), and the two missing values that reach the
  pipeline are kept apart: \<^verbatim>\<open>NaN\<close> (an empty spreadsheet cell, a failed coercion)
  and \<^verbatim>\<open>None\<close> (a database NULL in a text column). Column dtypes and the row index
  are not modelled. The behaviour of pandas is that of its versions 1 and 2.
\<close>

text \<open>A number as a coercion gives it: finite, or one of the two infinities.\<close>

datatype number = Fin rat | PInf | NInf

record timestamp =
  ts_year :: int
  ts_month :: int
  ts_day :: int
  ts_time :: nat

datatype cell = NaN | PyNone | Num rat | Inf bool | Str string | Ts timestamp

type_synonym row = "string \<Rightarrow> cell"

record frame =
  columns :: "string list"
  rows :: "row list"

datatype error = KeyError string | TypeError string | ValueError string

text \<open>\<^verbatim>\<open>isna\<close>: pandas counts both missing values as null.\<close>

fun isna :: "cell \<Rightarrow> bool" where
  "isna NaN = True"
| "isna PyNone = True"
| "isna _ = False"

text \<open>
  The loaders, the text conversions of pandas and the arithmetic of \<^verbatim>\<open>float64\<close> are
  outside the repository's transform code and are parameters of the model:
  \<open>load_excel\<close> and \<open>load_sql\<close> give the raw table of a logical name, or nothing;
  the conversions say what \<^verbatim>\<open>pd.to_numeric\<close>, \<^verbatim>\<open>pd.to_datetime\<close> and
  \<^verbatim>\<open>str\<close> make of a text, a number or a timestamp; \<open>float_to_int64\<close> is the cast
  of a finite \<^verbatim>\<open>float64\<close> that is out of the range of \<^verbatim>\<open>int64\<close>, which numpy
  leaves to the platform; \<open>np_mul\<close> and \<open>np_sub\<close> are the product and the
  difference of two columns' values, \<open>np_sum\<close> and \<open>np_mean\<close> the sum and the mean
  that \<^verbatim>\<open>groupby\<close> takes of the values of one group (with their rounding, and with
  nothing for a result that is \<^verbatim>\<open>NaN\<close>). Every theorem holds for all of them.
\<close>

record env =
  load_excel :: "string \<Rightarrow> frame option"
  load_sql :: "string \<Rightarrow> frame option"
  str_to_numeric :: "string \<Rightarrow> number option"
  ts_to_numeric :: "timestamp \<Rightarrow> number option"
  str_to_datetime :: "string \<Rightarrow> timestamp option"
  num_to_datetime :: "number \<Rightarrow> timestamp option"
  num_to_str :: "rat \<Rightarrow> string"
  ts_to_str :: "timestamp \<Rightarrow> string"
  float_to_int64 :: "rat \<Rightarrow> int"
  np_mul :: "number \<Rightarrow> number \<Rightarrow> number option"
  np_sub :: "number \<Rightarrow> number \<Rightarrow> number option"
  np_sum :: "number list \<Rightarrow> number option"
  np_mean :: "number list \<Rightarrow> number option"

text \<open>\<^verbatim>\<open>pd.to_numeric(..., errors="coerce")\<close> on one cell; \<open>None\<close> is the null result.\<close>

fun to_numeric :: "env \<Rightarrow> cell \<Rightarrow> number option" where
  "to_numeric E (Num x) = Some (Fin x)"
| "to_numeric E (Inf b) = Some (if b then PInf else NInf)"
| "to_numeric E (Str s) = str_to_numeric E s"
| "to_numeric E (Ts t) = ts_to_numeric E t"
| "to_numeric E NaN = None"
| "to_numeric E PyNone = None"

fun of_numeric :: "number option \<Rightarrow> cell" where
  "of_numeric None = NaN"
| "of_numeric (Some (Fin x)) = Num x"
| "of_numeric (Some PInf) = Inf True"
| "of_numeric (Some NInf) = Inf False"

text \<open>
  An integer as \<^verbatim>\<open>int64\<close> holds it, and the sum of two \<^verbatim>\<open>int64\<close> values, which
  wraps around.
\<close>

definition int64 :: "int \<Rightarrow> int" where
  "int64 n = sint (word_of_int n :: 64 word)"

definition int64_add :: "int \<Rightarrow> int \<Rightarrow> int" where
  "int64_add a b = sint (word_of_int a + word_of_int b :: 64 word)"

text \<open>
  \<^verbatim>\<open>astype(int)\<close> on a finite number: truncation towards zero when the result is in
  the range of \<^verbatim>\<open>int64\<close>, and what the platform makes of the number otherwise.
\<close>

definition trunc :: "rat \<Rightarrow> int" where
  "trunc x = (if 0 \<le> x then \<lfloor>x\<rfloor> else \<lceil>x\<rceil>)"

definition astype_int :: "env \<Rightarrow> rat \<Rightarrow> int" where
  "astype_int E x =
     (if - (2 ^ 63) \<le> trunc x \<and> trunc x < 2 ^ 63 then trunc x
      else int64 (float_to_int64 E x))"

subsection \<open>Python string methods used on the table name and on keys\<close>

text \<open>A \<open>char\<close> is a byte: the methods are modelled on ASCII text.\<close>

definition lower_char :: "char \<Rightarrow> char" where
  "lower_char c =
     (case map_of (zip ''ABCDEFGHIJKLMNOPQRSTUVWXYZ'' ''abcdefghijklmnopqrstuvwxyz'') c of
        None \<Rightarrow> c
      | Some l \<Rightarrow> l)"

definition py_lower :: "string \<Rightarrow> string" where
  "py_lower s = map lower_char s"

definition py_replace :: "char \<Rightarrow> char \<Rightarrow> string \<Rightarrow> string" where
  "py_replace a b s = map (\<lambda>c. if c = a then b else c) s"

definition is_space :: "char \<Rightarrow> bool" where
  "is_space c = (let n = (of_char c :: nat) in (9 \<le> n \<and> n \<le> 13) \<or> (28 \<le> n \<and> n \<le> 32))"

definition py_strip :: "string \<Rightarrow> string" where
  "py_strip s = rev (dropWhile is_space (rev (dropWhile is_space s)))"

subsection \<open>Frame operations\<close>

text \<open>A raised exception ends the computation: the sum type's sequencing.\<close>

definition bind :: "error + 'a \<Rightarrow> ('a \<Rightarrow> error + 'b) \<Rightarrow> error + 'b" where
  "bind m f = (case m of Inl e \<Rightarrow> Inl e | Inr x \<Rightarrow> f x)"

fun traverse :: "('a \<Rightarrow> error + 'b) \<Rightarrow> 'a list \<Rightarrow> error + 'b list" where
  "traverse f [] = Inr []"
| "traverse f (x # xs) = bind (f x) (\<lambda>y. bind (traverse f xs) (\<lambda>ys. Inr (y # ys)))"

text \<open>Using a table that is \<^verbatim>\<open>None\<close> raises \<^verbatim>\<open>TypeError\<close>.\<close>

definition not_none :: "string \<Rightarrow> frame option \<Rightarrow> error + frame" where
  "not_none msg d = (case d of None \<Rightarrow> Inl (TypeError msg) | Some df \<Rightarrow> Inr df)"

text \<open>\<^verbatim>\<open>df[c]\<close> raises \<^verbatim>\<open>KeyError\<close> when \<open>c\<close> is not a column.\<close>

definition has_columns :: "string list \<Rightarrow> frame \<Rightarrow> error + unit" where
  "has_columns cols df =
     (case filter (\<lambda>c. c \<notin> set (columns df)) cols of
        [] \<Rightarrow> Inr ()
      | c # _ \<Rightarrow> Inl (KeyError c))"

text \<open>The key of a row on a list of columns.\<close>

definition key_of :: "string list \<Rightarrow> row \<Rightarrow> cell list" where
  "key_of keys r = map r keys"

text \<open>\<^verbatim>\<open>df[c] = f(df[c])\<close>: a column rewritten cell by cell.\<close>

definition map_col :: "string \<Rightarrow> (cell \<Rightarrow> cell) \<Rightarrow> frame \<Rightarrow> frame" where
  "map_col c f df = df\<lparr>rows := map (\<lambda>r. r(c := f (r c))) (rows df)\<rparr>"

text \<open>
  \<^verbatim>\<open>df[c] = values\<close> for a column computed beforehand, new or not; and the same
  with values whose computation can raise.
\<close>

definition assign_col :: "string \<Rightarrow> cell list \<Rightarrow> frame \<Rightarrow> frame" where
  "assign_col c vs df =
     \<lparr>columns = (if c \<in> set (columns df) then columns df else columns df @ [c]),
      rows = map (\<lambda>(r, v). r(c := v)) (zip (rows df) vs)\<rparr>"

definition try_set_col :: "string \<Rightarrow> (row \<Rightarrow> error + cell) \<Rightarrow> frame \<Rightarrow> error + frame" where
  "try_set_col c f df = bind (traverse f (rows df)) (\<lambda>vs. Inr (assign_col c vs df))"

text \<open>\<^verbatim>\<open>df[[c1, c2, ...]]\<close>.\<close>

definition select :: "string list \<Rightarrow> frame \<Rightarrow> error + frame" where
  "select cols df = bind (has_columns cols df) (\<lambda>_. Inr (df\<lparr>columns := cols\<rparr>))"

text \<open>
  \<^verbatim>\<open>df.rename(columns={old: new})\<close>; a name that is not a column is ignored. A frame
  that already has a column called \<open>new\<close> is outside the model.
\<close>

definition rename :: "string \<Rightarrow> string \<Rightarrow> frame \<Rightarrow> frame" where
  "rename old new df =
     (if old \<in> set (columns df)
      then \<lparr>columns = map (\<lambda>c. if c = old then new else c) (columns df),
            rows = map (\<lambda>r. r(new := r old)) (rows df)\<rparr>
      else df)"

text \<open>\<^verbatim>\<open>df.dropna(subset=...)\<close>: rows with a null in a key column go.\<close>

definition dropna :: "string list \<Rightarrow> frame \<Rightarrow> frame" where
  "dropna keys df = df\<lparr>rows := filter (\<lambda>r. \<forall>c \<in> set keys. \<not> isna (r c)) (rows df)\<rparr>"

text \<open>
  \<^verbatim>\<open>keep="first"\<close>: a row is kept when no earlier row had its key. Rows whose key holds
  a null are compared here by plain equality; wherever the pipeline removes duplicates
  on key columns it also drops the rows with a null in them, so how pandas compares two
  nulls never shows.
\<close>

fun keep_first :: "string list \<Rightarrow> cell list list \<Rightarrow> row list \<Rightarrow> row list" where
  "keep_first keys seen [] = []"
| "keep_first keys seen (r # rs) =
     (if key_of keys r \<in> set seen then keep_first keys seen rs
      else r # keep_first keys (key_of keys r # seen) rs)"

text \<open>
  \<^verbatim>\<open>df.drop_duplicates(subset=..., keep="first")\<close> raises \<^verbatim>\<open>KeyError\<close> when a
  key column is not a column of the frame.
\<close>

definition drop_duplicates :: "string list \<Rightarrow> frame \<Rightarrow> error + frame" where
  "drop_duplicates keys df =
     bind (has_columns keys df) (\<lambda>_. Inr (df\<lparr>rows := keep_first keys [] (rows df)\<rparr>))"

text \<open>\<^verbatim>\<open>df.drop(columns=c, errors="ignore")\<close>.\<close>

definition drop_column :: "string \<Rightarrow> frame \<Rightarrow> frame" where
  "drop_column c df = df\<lparr>columns := removeAll c (columns df)\<rparr>"

text \<open>
  \<^verbatim>\<open>pd.concat([a, b], ignore_index=True)\<close>: the columns of \<open>a\<close>, then the new ones of
  \<open>b\<close>; the rows of \<open>a\<close>, then those of \<open>b\<close>; a row has \<^verbatim>\<open>NaN\<close> in the columns
  its own frame did not have.
\<close>

definition fill :: "string list \<Rightarrow> row \<Rightarrow> row" where
  "fill cols r = (\<lambda>c. if c \<in> set cols then r c else NaN)"

definition pd_concat :: "frame \<Rightarrow> frame \<Rightarrow> frame" where
  "pd_concat a b =
     \<lparr>columns = columns a @ filter (\<lambda>c. c \<notin> set (columns a)) (columns b),
      rows = map (fill (columns a)) (rows a) @ map (fill (columns b)) (rows b)\<rparr>"

text \<open>
  \<^verbatim>\<open>left.merge(right, on=k, how="left")\<close>: every left row, once for each right row
  with the same key, or once with \<^verbatim>\<open>NaN\<close> in the new columns when there is none.
  \<open>new\<close> lists the columns of \<open>right\<close> other than the key. A column name shared by
  both frames (which pandas would suffix) is ruled out by the callers before the merge.
\<close>

definition merge_left :: "string \<Rightarrow> string list \<Rightarrow> frame \<Rightarrow> frame \<Rightarrow> frame" where
  "merge_left k new left right =
     \<lparr>columns = columns left @ new,
      rows = concat (map (\<lambda>x.
               case filter (\<lambda>y. y k = x k) (rows right) of
                 [] \<Rightarrow> [\<lambda>c. if c \<in> set new then NaN else x c]
               | ys \<Rightarrow> map (\<lambda>y. (\<lambda>c. if c \<in> set new then y c else x c)) ys) (rows left))\<rparr>"

section \<open>The source reconciler: \<^verbatim>\<open>merge_sources\<close>\<close>

definition EXCEL_ORDER_OFFSET :: int where
  "EXCEL_ORDER_OFFSET = 200000"

definition table_name :: "string \<Rightarrow> string" where
  "table_name t = py_strip (py_replace (CHR ''_'') (CHR '' '') (py_lower t))"

definition order_bearing :: "string \<Rightarrow> bool" where
  "order_bearing t = (table_name t = ''orders'' \<or> table_name t = ''order details'')"

text \<open>
  \<^verbatim>\<open>.astype(int)\<close> on one cell of a numeric column: the cast raises on a null and on
  an infinity.
\<close>

definition int_casting_nan :: error where
  "int_casting_nan = ValueError ''Cannot convert non-finite values (NA or inf) to integer''"

fun astype_int_cell :: "env \<Rightarrow> cell \<Rightarrow> error + cell" where
  "astype_int_cell E (Num x) = Inr (Num (of_int (astype_int E x)))"
| "astype_int_cell E _ = Inl int_casting_nan"

text \<open>\<^verbatim>\<open>+ EXCEL_ORDER_OFFSET\<close> on one cell of an \<^verbatim>\<open>int64\<close> column.\<close>

fun add_offset :: "cell \<Rightarrow> cell" where
  "add_offset (Num x) = Num (of_int (int64_add \<lfloor>x\<rfloor> EXCEL_ORDER_OFFSET))"
| "add_offset c = c"

text \<open>
  \<^verbatim>\<open>_adjust_excel_ids\<close>, lines 86 to 95: for an order table the identifier is coerced
  (line 92), the rows where it is null are dropped (line 93), the rest is cast to
  \<^verbatim>\<open>int64\<close> and the offset added (line 94).
\<close>

definition order_id_missing :: "string \<Rightarrow> error" where
  "order_id_missing t =
     KeyError (''Colonne OrderID introuvable dans le fichier Excel pour la table '' @ t)"

definition adjust_excel_ids :: "env \<Rightarrow> string \<Rightarrow> frame \<Rightarrow> error + frame" where
  "adjust_excel_ids E t df =
     (if order_bearing t then
        (if ''OrderID'' \<notin> set (columns df) then Inl (order_id_missing t)
         else
           (let df1 = map_col ''OrderID'' (\<lambda>c. of_numeric (to_numeric E c)) df;
                df2 = dropna [''OrderID''] df1
            in bind (try_set_col ''OrderID'' (\<lambda>r. astype_int_cell E (r ''OrderID'')) df2)
                 (\<lambda>df3. Inr (map_col ''OrderID'' add_offset df3))))
      else Inr df)"

text \<open>
  Lines 97 to 106 of \<^verbatim>\<open>merge_sources\<close> (58 to 68 of \<^verbatim>\<open>merge_with_excel\<close>): the
  table before deduplication, nothing when both origins are absent.
\<close>

definition combine :: "env \<Rightarrow> string \<Rightarrow> frame option \<Rightarrow> error + frame option" where
  "combine E t df_sql =
     bind (case load_excel E t of
             None \<Rightarrow> Inr None
           | Some x \<Rightarrow> bind (adjust_excel_ids E t x) (\<lambda>x'. Inr (Some x')))
       (\<lambda>df_excel.
          case (df_sql, df_excel) of
            (None, None) \<Rightarrow> Inr None
          | (None, Some x) \<Rightarrow> Inr (Some x)
          | (Some s, None) \<Rightarrow> Inr (Some s)
          | (Some s, Some x) \<Rightarrow> Inr (Some (pd_concat x s)))"

definition merge_sources :: "env \<Rightarrow> string \<Rightarrow> string list \<Rightarrow> bool \<Rightarrow> error + frame option" where
  "merge_sources E t keys dedupe =
     bind (combine E t (load_sql E t))
       (\<lambda>d. case d of
          None \<Rightarrow> Inr None
        | Some df \<Rightarrow>
            if dedupe then
              bind (drop_duplicates keys df)
                (\<lambda>df1. Inr (Some (drop_column ''_source'' (dropna keys df1))))
            else Inr (Some df))"

text \<open>
  \<^verbatim>\<open>merge_with_excel\<close> of \<^verbatim>\<open>scripts/etl_northwind_sqlserver.py\<close>: the same
  reconciliation with the database table passed in and no \<^verbatim>\<open>_source\<close> column to drop.
\<close>

definition merge_with_excel ::
  "env \<Rightarrow> frame option \<Rightarrow> string \<Rightarrow> string list \<Rightarrow> bool \<Rightarrow> error + frame option" where
  "merge_with_excel E sql_df t keys dedupe =
     bind (combine E t sql_df)
       (\<lambda>d. case d of
          None \<Rightarrow> Inr None
        | Some df \<Rightarrow>
            if dedupe then
              bind (drop_duplicates keys df) (\<lambda>df1. Inr (Some (dropna keys df1)))
            else Inr (Some df))"

section \<open>The star schema: \<^verbatim>\<open>build_star_schema\<close>\<close>

subsection \<open>Dates\<close>

text \<open>\<^verbatim>\<open>pd.to_datetime(..., errors="coerce")\<close> on one cell; \<open>None\<close> is \<^verbatim>\<open>NaT\<close>.\<close>

fun to_datetime :: "env \<Rightarrow> cell \<Rightarrow> timestamp option" where
  "to_datetime E (Ts t) = Some t"
| "to_datetime E (Str s) = str_to_datetime E s"
| "to_datetime E (Num x) = num_to_datetime E (Fin x)"
| "to_datetime E (Inf b) = num_to_datetime E (if b then PInf else NInf)"
| "to_datetime E NaN = None"
| "to_datetime E PyNone = None"

fun of_datetime :: "timestamp option \<Rightarrow> cell" where
  "of_datetime None = NaN"
| "of_datetime (Some t) = Ts t"

text \<open>\<^verbatim>\<open>pd.Timestamp("1996-01-01")\<close>.\<close>

definition default_date :: timestamp where
  "default_date = \<lparr>ts_year = 1996, ts_month = 1, ts_day = 1, ts_time = 0\<rparr>"

definition fillna :: "cell \<Rightarrow> cell \<Rightarrow> cell" where
  "fillna v c = (if isna c then v else c)"

text \<open>
  \<^verbatim>\<open>.dt.strftime("%Y%m%d").astype(int)\<close> on one cell of a datetime column: the eight
  digits of a date read as a number (pandas timestamps have four-digit years); the cast
  raises on \<^verbatim>\<open>NaT\<close>.
\<close>

definition time_key :: "timestamp \<Rightarrow> int" where
  "time_key t = ts_year t * 10000 + ts_month t * 100 + ts_day t"

fun strftime_int :: "cell \<Rightarrow> error + cell" where
  "strftime_int (Ts t) = Inr (Num (of_int (time_key t)))"
| "strftime_int _ = Inl (ValueError ''cannot convert float NaN to integer'')"

fun dt_year :: "cell \<Rightarrow> cell" where
  "dt_year (Ts t) = Num (of_int (ts_year t))"
| "dt_year _ = NaN"

fun dt_month :: "cell \<Rightarrow> cell" where
  "dt_month (Ts t) = Num (of_int (ts_month t))"
| "dt_month _ = NaN"

fun dt_day :: "cell \<Rightarrow> cell" where
  "dt_day (Ts t) = Num (of_int (ts_day t))"
| "dt_day _ = NaN"

text \<open>Lines 143 to 149: the order dates coerced, the missing ones replaced.\<close>

definition clean_dates :: "env \<Rightarrow> frame \<Rightarrow> error + frame" where
  "clean_dates E orders =
     bind (has_columns [''OrderDate''] orders)
       (\<lambda>_. let orders1 = map_col ''OrderDate'' (\<lambda>c. of_datetime (to_datetime E c)) orders;
                missing_dates = length (filter (\<lambda>r. isna (r ''OrderDate'')) (rows orders1))
            in Inr (if missing_dates > 0
                    then map_col ''OrderDate'' (fillna (Ts default_date)) orders1
                    else orders1))"

subsection \<open>Dimensions\<close>

text \<open>Lines 154 to 160.\<close>

definition time_row :: "cell \<Rightarrow> cell \<Rightarrow> row" where
  "time_row k d =
     (\<lambda>_. NaN)(''TimeKey'' := k, ''date'' := d, ''year'' := dt_year d,
               ''month'' := dt_month d, ''day'' := dt_day d)"

definition build_dim_time :: "frame \<Rightarrow> error + frame" where
  "build_dim_time orders =
     bind (traverse (\<lambda>r. bind (strftime_int (r ''OrderDate''))
                          (\<lambda>k. Inr (time_row k (r ''OrderDate'')))) (rows orders))
       (\<lambda>rs. drop_duplicates [''TimeKey'', ''date'', ''year'', ''month'', ''day'']
                \<lparr>columns = [''TimeKey'', ''date'', ''year'', ''month'', ''day''], rows = rs\<rparr>)"

text \<open>Lines 165 to 175.\<close>

definition build_dim_customer :: "frame option \<Rightarrow> error + frame" where
  "build_dim_customer customers =
     bind (not_none ''NoneType object is not subscriptable'' customers) (\<lambda>customers.
     bind (select [''CustomerID'', ''CompanyName'', ''City'', ''Country'', ''Phone''] customers) (\<lambda>df.
     drop_duplicates [''CustomerKey'']
       (dropna [''CustomerKey'']
         (rename ''Country'' ''CustomerCountry''
           (rename ''City'' ''CustomerCity''
             (rename ''CompanyName'' ''CustomerName''
               (rename ''CustomerID'' ''CustomerKey'' df)))))))"

text \<open>
  Line 180, \<^verbatim>\<open>employees["FirstName"] + " " + employees["LastName"]\<close>: the sum of two
  cells is null when one of them is, the concatenation of two texts, and a
  \<^verbatim>\<open>TypeError\<close> otherwise.
\<close>

fun str_add :: "cell \<Rightarrow> cell \<Rightarrow> error + cell" where
  "str_add (Str a) (Str b) = Inr (Str (a @ b))"
| "str_add a b =
     (if isna a \<or> isna b then Inr NaN
      else Inl (TypeError ''unsupported operand type(s) for +''))"

text \<open>Lines 180 to 190.\<close>

definition build_dim_employee :: "frame option \<Rightarrow> error + frame" where
  "build_dim_employee employees =
     bind (not_none ''NoneType object is not subscriptable'' employees) (\<lambda>employees.
     bind (has_columns [''FirstName''] employees) (\<lambda>_.
     bind (traverse (\<lambda>r. str_add (r ''FirstName'') (Str '' '')) (rows employees)) (\<lambda>first.
     bind (has_columns [''LastName''] employees) (\<lambda>_.
     bind (traverse (\<lambda>(r, x). str_add x (r ''LastName'')) (zip (rows employees) first)) (\<lambda>full.
     bind (select [''EmployeeID'', ''EmployeeFullName'', ''FirstName'', ''LastName'',
                   ''Title'', ''City'', ''Country'']
             (assign_col ''EmployeeFullName'' full employees)) (\<lambda>df.
     drop_duplicates [''EmployeeKey'']
       (dropna [''EmployeeKey''] (rename ''EmployeeID'' ''EmployeeKey'' df))))))))"

text \<open>
  \<^verbatim>\<open>.astype("Int64")\<close> on a coerced number: the nullable integer, \<^verbatim>\<open>TypeError\<close> for
  a number that is not a whole number in the range of \<^verbatim>\<open>int64\<close>.
\<close>

fun astype_Int64 :: "number option \<Rightarrow> error + cell" where
  "astype_Int64 None = Inr NaN"
| "astype_Int64 (Some (Fin x)) =
     (if of_int \<lfloor>x\<rfloor> = x \<and> - (2 ^ 63) \<le> \<lfloor>x\<rfloor> \<and> \<lfloor>x\<rfloor> < 2 ^ 63 then Inr (Num x)
      else Inl (TypeError ''cannot safely cast non-equivalent float64 to int64''))"
| "astype_Int64 (Some _) =
     Inl (TypeError ''cannot safely cast non-equivalent float64 to int64'')"

text \<open>Lines 195 to 204.\<close>

definition build_dim_shipper :: "env \<Rightarrow> frame option \<Rightarrow> error + frame" where
  "build_dim_shipper E shippers =
     bind (not_none ''NoneType object is not subscriptable'' shippers) (\<lambda>shippers.
     bind (select [''ShipperID'', ''CompanyName'', ''Phone''] shippers) (\<lambda>df.
     bind (try_set_col ''ShipperKey'' (\<lambda>r. astype_Int64 (to_numeric E (r ''ShipperKey'')))
             (rename ''CompanyName'' ''ShipperName'' (rename ''ShipperID'' ''ShipperKey'' df))) (\<lambda>df.
     drop_duplicates [''ShipperKey''] (dropna [''ShipperKey''] df))))"

text \<open>Lines 209 to 213.\<close>

definition build_dim_categories :: "frame option \<Rightarrow> error + frame" where
  "build_dim_categories categories =
     bind (not_none ''NoneType object is not subscriptable'' categories) (\<lambda>categories.
     bind (select [''CategoryID'', ''CategoryName''] categories) (\<lambda>df.
     drop_duplicates [''CategoryID''] (dropna [''CategoryID''] df)))"

text \<open>\<^verbatim>\<open>.astype(bool)\<close>: Python's truth value of a cell.\<close>

fun astype_bool :: "cell \<Rightarrow> cell" where
  "astype_bool (Num x) = (if x = 0 then Num 0 else Num 1)"
| "astype_bool (Str s) = (if s = [] then Num 0 else Num 1)"
| "astype_bool _ = Num 1"

text \<open>
  Lines 218 to 238. A \<^verbatim>\<open>CategoryName\<close> column of the raw products would be suffixed
  by the merge, and line 227 would then not find the plain name.
\<close>

definition product_row :: "cell \<Rightarrow> row \<Rightarrow> row" where
  "product_row k r =
     (\<lambda>_. NaN)(''ProductKey'' := k, ''ProductName'' := r ''ProductName'',
               ''UnitPrice'' := r ''UnitPrice'', ''CategoryName'' := r ''CategoryName'',
               ''Discontinued'' := astype_bool (fillna (Num 0) (r ''Discontinued'')))"

definition build_dim_product :: "env \<Rightarrow> frame option \<Rightarrow> frame \<Rightarrow> error + frame" where
  "build_dim_product E products dim_categories =
     bind (not_none ''NoneType object is not subscriptable'' products) (\<lambda>products.
     bind (has_columns [''ProductID''] products) (\<lambda>_.
     let products1 = map_col ''ProductID'' (\<lambda>c. of_numeric (to_numeric E c)) products;
         invalid_products = length (filter (\<lambda>r. isna (r ''ProductID'')) (rows products1));
         products2 = (if invalid_products > 0 then dropna [''ProductID''] products1 else products1)
     in
     bind (has_columns [''CategoryID''] products2) (\<lambda>_.
     bind (if ''CategoryName'' \<in> set (columns products2)
           then Inl (KeyError ''CategoryName'') else Inr ()) (\<lambda>_.
     let products3 = map_col ''CategoryName'' (fillna (Str ''Unknown''))
                       (merge_left ''CategoryID'' [''CategoryName''] products2 dim_categories)
     in
     bind (has_columns [''ProductID'', ''ProductName'', ''UnitPrice'', ''CategoryName'',
                        ''Discontinued''] products3) (\<lambda>_.
     bind (traverse (\<lambda>r. bind (astype_int_cell E (r ''ProductID''))
                          (\<lambda>k. Inr (product_row k r))) (rows products3)) (\<lambda>rs.
     drop_duplicates [''ProductKey'']
       \<lparr>columns = [''ProductKey'', ''ProductName'', ''UnitPrice'', ''CategoryName'',
                   ''Discontinued''], rows = rs\<rparr>))))))"

subsection \<open>The fact table\<close>

text \<open>
  Lines 247 to 251: an order-detail row with its three measures coerced to numbers
  (null becomes 0), its line total and the constant 1 that is summed into the count.
  The line total is \<^verbatim>\<open>UnitPrice * Quantity * (1 - Discount)\<close> in the arithmetic of
  the columns, \<open>np_mul\<close> and \<open>np_sub\<close>; it is \<^verbatim>\<open>NaN\<close> (\<open>None\<close>) when a step of
  it is.
\<close>

record detail =
  d_OrderID :: cell
  d_Discount :: number
  d_Quantity :: number
  d_UnitPrice :: number
  d_LineTotal :: "number option"
  d_DetailCount :: int

definition numeric_or_zero :: "env \<Rightarrow> cell \<Rightarrow> number" where
  "numeric_or_zero E c = (case to_numeric E c of None \<Rightarrow> Fin 0 | Some x \<Rightarrow> x)"

definition nan_or :: "(number \<Rightarrow> number \<Rightarrow> number option) \<Rightarrow>
    number option \<Rightarrow> number option \<Rightarrow> number option" where
  "nan_or f a b = (case (a, b) of (Some x, Some y) \<Rightarrow> f x y | _ \<Rightarrow> None)"

definition normalize_detail :: "env \<Rightarrow> row \<Rightarrow> detail" where
  "normalize_detail E r =
     (let discount = numeric_or_zero E (r ''Discount'');
          quantity = numeric_or_zero E (r ''Quantity'');
          unit_price = numeric_or_zero E (r ''UnitPrice'')
      in \<lparr>d_OrderID = r ''OrderID'', d_Discount = discount, d_Quantity = quantity,
          d_UnitPrice = unit_price,
          d_LineTotal = nan_or (np_mul E) (np_mul E unit_price quantity)
                          (np_sub E (Fin 1) discount),
          d_DetailCount = 1\<rparr>)"

text \<open>
  Lines 253 to 261, \<^verbatim>\<open>groupby("OrderID").agg(...)\<close>: one row for each identifier that
  is not null, carrying the count, the sums and the mean over the rows of that
  identifier. The count is a sum of ones. A sum leaves out the values that are
  \<^verbatim>\<open>NaN\<close> and is 0 when nothing is left; the sums and the mean are those of
  \<open>np_sum\<close> and \<open>np_mean\<close>. (pandas sorts the groups by key; the model does not, and
  the left join below does not depend on their order.)
\<close>

definition agg_sum :: "env \<Rightarrow> number option list \<Rightarrow> number option" where
  "agg_sum E vs =
     (case List.map_filter (\<lambda>v. v) vs of [] \<Rightarrow> Some (Fin 0) | x # xs \<Rightarrow> np_sum E (x # xs))"

definition agg_row :: "env \<Rightarrow> cell \<Rightarrow> detail list \<Rightarrow> row" where
  "agg_row E k g =
     (\<lambda>_. NaN)(''OrderID'' := k,
               ''DetailCount'' := Num (of_int (sum_list (map d_DetailCount g))),
               ''TotalQuantity'' := of_numeric (agg_sum E (map (\<lambda>d. Some (d_Quantity d)) g)),
               ''AverageDiscount'' := of_numeric (np_mean E (map d_Discount g)),
               ''TotalLineTotal'' := of_numeric (agg_sum E (map d_LineTotal g)))"

definition measure_columns :: "string list" where
  "measure_columns = [''DetailCount'', ''TotalQuantity'', ''AverageDiscount'', ''TotalLineTotal'']"

definition groupby_agg :: "env \<Rightarrow> detail list \<Rightarrow> frame" where
  "groupby_agg E ds =
     \<lparr>columns = ''OrderID'' # measure_columns,
      rows = map (\<lambda>k. agg_row E k (filter (\<lambda>d. d_OrderID d = k) ds))
               (remdups (filter (\<lambda>k. \<not> isna k) (map d_OrderID ds)))\<rparr>"

text \<open>
  The detail rows that the aggregate and the join give to an order identifier: the
  rows with that identifier, and none for a null identifier, which
  \<^verbatim>\<open>groupby\<close> leaves out.
\<close>

definition details_of :: "frame \<Rightarrow> cell \<Rightarrow> row list" where
  "details_of order_det k =
     (if isna k then [] else filter (\<lambda>r. r ''OrderID'' = k) (rows order_det))"

text \<open>\<^verbatim>\<open>str(x)\<close> of a cell, as \<^verbatim>\<open>astype(str)\<close> applies it.\<close>

fun astype_str :: "env \<Rightarrow> cell \<Rightarrow> string" where
  "astype_str E (Str s) = s"
| "astype_str E NaN = ''nan''"
| "astype_str E PyNone = ''None''"
| "astype_str E (Num x) = num_to_str E x"
| "astype_str E (Inf b) = (if b then ''inf'' else ''-inf'')"
| "astype_str E (Ts t) = ts_to_str E t"

text \<open>
  Lines 247 to 290. A column of the orders named like one of the four measures would be
  suffixed by the merge, and lines 271 to 274 would then not find the plain name.
\<close>

definition build_fact_sales :: "env \<Rightarrow> frame \<Rightarrow> frame \<Rightarrow> error + frame" where
  "build_fact_sales E orders order_det =
     bind (has_columns [''Discount'', ''Quantity'', ''UnitPrice'', ''OrderID''] order_det) (\<lambda>_.
     let detail_summary = groupby_agg E (map (normalize_detail E) (rows order_det));
         orders1 = drop_column ''_source'' orders
     in
     bind (has_columns [''OrderID''] orders1) (\<lambda>_.
     bind (case filter (\<lambda>c. c \<in> set (columns orders1)) measure_columns of
             [] \<Rightarrow> Inr () | c # _ \<Rightarrow> Inl (KeyError c)) (\<lambda>_.
     let fact1 = merge_left ''OrderID'' measure_columns orders1 detail_summary in
     bind (has_columns [''OrderDate''] fact1) (\<lambda>_.
     let fact2 = map_col ''OrderDate''
                   (\<lambda>c. fillna (Ts default_date) (of_datetime (to_datetime E c))) fact1 in
     bind (try_set_col ''TimeKey'' (\<lambda>r. strftime_int (r ''OrderDate'')) fact2) (\<lambda>fact3.
     bind (try_set_col ''DetailCount''
             (\<lambda>r. astype_int_cell E (fillna (Num 0) (r ''DetailCount''))) fact3) (\<lambda>fact4.
     let fact5 = map_col ''TotalLineTotal'' (fillna (Num 0))
                   (map_col ''AverageDiscount'' (fillna (Num 0))
                     (map_col ''TotalQuantity'' (fillna (Num 0)) fact4)) in
     bind (has_columns [''Freight''] fact5) (\<lambda>_.
     let fact6 = map_col ''Freight'' (\<lambda>c. of_numeric (Some (numeric_or_zero E c))) fact5;
         fact7 = rename ''ShipVia'' ''ShipperKey''
                   (rename ''EmployeeID'' ''EmployeeKey''
                     (rename ''CustomerID'' ''CustomerKey''
                       (rename ''OrderID'' ''OrderKey'' fact6)))
     in
     bind (has_columns [''CustomerKey''] fact7) (\<lambda>_.
     let fact8 = map_col ''CustomerKey'' (\<lambda>c. Str (py_strip (astype_str E c))) fact7 in
     bind (has_columns [''EmployeeKey''] fact8) (\<lambda>_.
     bind (try_set_col ''EmployeeKey''
             (\<lambda>r. astype_Int64 (to_numeric E (r ''EmployeeKey''))) fact8) (\<lambda>fact9.
     bind (has_columns [''ShipperKey''] fact9) (\<lambda>_.
     try_set_col ''ShipperKey''
       (\<lambda>r. astype_Int64 (to_numeric E (r ''ShipperKey''))) fact9)))))))))))"

subsection \<open>The whole run\<close>

record star =
  dim_time :: frame
  dim_customer :: frame
  dim_product :: frame
  dim_employee :: frame
  dim_shipper :: frame
  dim_categories :: frame
  fact_sales :: frame

definition build_star_schema :: "env \<Rightarrow> error + star" where
  "build_star_schema E =
     bind (merge_sources E ''Orders'' [''OrderID''] False) (\<lambda>orders.
     bind (merge_sources E ''Order Details'' [''OrderID'', ''ProductID''] False) (\<lambda>order_det.
     bind (merge_sources E ''Customers'' [''CustomerID''] True) (\<lambda>customers.
     bind (merge_sources E ''Products'' [''ProductID''] True) (\<lambda>products.
     bind (merge_sources E ''Employees'' [''EmployeeID''] True) (\<lambda>employees.
     bind (merge_sources E ''Shippers'' [''ShipperID''] True) (\<lambda>shippers.
     bind (merge_sources E ''Categories'' [''CategoryID''] True) (\<lambda>categories.
     bind (not_none ''object of type NoneType has no len()'' orders) (\<lambda>orders.
     bind (not_none ''object of type NoneType has no len()'' order_det) (\<lambda>order_det.
     bind (clean_dates E orders) (\<lambda>orders.
     bind (build_dim_time orders) (\<lambda>dim_time.
     bind (build_dim_customer customers) (\<lambda>dim_customer.
     bind (build_dim_employee employees) (\<lambda>dim_employee.
     bind (build_dim_shipper E shippers) (\<lambda>dim_shipper.
     bind (build_dim_categories categories) (\<lambda>dim_categories.
     bind (build_dim_product E products dim_categories) (\<lambda>dim_product.
     bind (build_fact_sales E orders order_det) (\<lambda>fact_sales.
     Inr \<lparr>dim_time = dim_time, dim_customer = dim_customer, dim_product = dim_product,
          dim_employee = dim_employee, dim_shipper = dim_shipper,
          dim_categories = dim_categories, fact_sales = fact_sales\<rparr>)))))))))))))))))"

section \<open>Example inputs\<close>

text \<open>
  Small tables on which the theorems below are instantiated and the functions above are
  evaluated. The environment of the examples reads the texts \<open>5\<close> and \<open>inf\<close> as
  numbers and no other text, casts an out-of-range number to the least \<^verbatim>\<open>int64\<close>,
  and computes exactly on finite numbers; no example depends on that arithmetic.
\<close>

fun fin_val :: "number \<Rightarrow> rat" where
  "fin_val (Fin x) = x"
| "fin_val _ = 0"

definition mk_row :: "(string \<times> cell) list \<Rightarrow> row" where
  "mk_row kvs = (\<lambda>c. case map_of kvs c of None \<Rightarrow> NaN | Some v \<Rightarrow> v)"

definition mk_frame :: "string list \<Rightarrow> cell list list \<Rightarrow> frame" where
  "mk_frame cols vals = \<lparr>columns = cols, rows = map (\<lambda>vs. mk_row (zip cols vs)) vals\<rparr>"

definition mk_env :: "(string \<times> frame) list \<Rightarrow> (string \<times> frame) list \<Rightarrow> env" where
  "mk_env excel sql =
     \<lparr>load_excel = map_of excel, load_sql = map_of sql,
      str_to_numeric = map_of [(''5'', Fin 5), (''inf'', PInf)], ts_to_numeric = (\<lambda>_. None),
      str_to_datetime = (\<lambda>_. None), num_to_datetime = (\<lambda>_. None),
      num_to_str = (\<lambda>_. ''0''), ts_to_str = (\<lambda>_. ''1996-01-01''),
      float_to_int64 = (\<lambda>_. - (2 ^ 63)),
      np_mul = (\<lambda>a b. Some (Fin (fin_val a * fin_val b))),
      np_sub = (\<lambda>a b. Some (Fin (fin_val a - fin_val b))),
      np_sum = (\<lambda>xs. Some (Fin (sum_list (map fin_val xs)))),
      np_mean = (\<lambda>xs. Some (Fin (sum_list (map fin_val xs) / of_nat (length xs))))\<rparr>"

definition ex_customers_sql :: frame where
  "ex_customers_sql =
     mk_frame [''CustomerID'', ''CompanyName'']
       [[Str ''ALFKI'', Str ''Alfreds Futterkiste''],
        [Str ''ALFKI'', Str ''Alfreds (copy)''],
        [Str ''BONAP'', Str ''Bon app'']]"

definition ex_customers_excel :: frame where
  "ex_customers_excel =
     mk_frame [''CustomerID'', ''CompanyName'']
       [[Str ''ALFKI'', Str ''Alfreds (spreadsheet)''],
        [NaN, Str ''No identifier'']]"

definition ex_orders_excel :: frame where
  "ex_orders_excel = mk_frame [''OrderID'', ''CustomerID''] [[Num 5, Str ''ALFKI'']]"

definition ex_orders_negative :: frame where
  "ex_orders_negative = mk_frame [''OrderID'', ''CustomerID''] [[Num (- 5), Str ''ALFKI'']]"

definition ex_no_key_column :: frame where
  "ex_no_key_column = mk_frame [''CompanyName''] [[Str ''Alfreds Futterkiste'']]"

definition ex_orders_infinite :: frame where
  "ex_orders_infinite = mk_frame [''OrderID'', ''CustomerID''] [[Str ''inf'', Str ''ALFKI'']]"

definition env_infinite :: env where
  "env_infinite = mk_env [(''Orders'', ex_orders_infinite)] []"

definition env_single :: env where
  "env_single = mk_env [(''Orders'', ex_orders_excel)] [(''Customers'', ex_customers_sql)]"

definition env_both :: env where
  "env_both = mk_env [(''Customers'', ex_customers_excel)] [(''Customers'', ex_customers_sql)]"

definition env_malformed :: env where
  "env_malformed =
     mk_env [(''Orders'', ex_orders_negative), (''Order Details'', ex_no_key_column),
             (''Customers'', ex_no_key_column)] []"

definition ex_orders_shifted :: frame where
  "ex_orders_shifted =
     ex_orders_excel\<lparr>rows := map (\<lambda>r. r(''OrderID'' := Num 200005)) (rows ex_orders_excel)\<rparr>"

definition ex_customers_merged :: frame where
  "ex_customers_merged =
     \<lparr>columns = [''CustomerID'', ''CompanyName''],
      rows = map (fill [''CustomerID'', ''CompanyName''])
               [mk_row [(''CustomerID'', Str ''ALFKI''),
                        (''CompanyName'', Str ''Alfreds (spreadsheet)'')],
                mk_row [(''CustomerID'', Str ''BONAP''), (''CompanyName'', Str ''Bon app'')]]\<rparr>"

text \<open>
  A whole run: four orders in the database, the first two stamped on the same day at
  different hours, the second without a customer (a database NULL), the third without
  a date and for a customer that the Customers table does not have, the fourth with
  \<^verbatim>\<open>NaN\<close> for its customer; two detail rows, both of the first order.
\<close>

definition ex_orders :: frame where
  "ex_orders =
     mk_frame [''OrderID'', ''CustomerID'', ''EmployeeID'', ''OrderDate'', ''ShipVia'', ''Freight'']
       [[Num 1, Str ''ALFKI'', Num 1,
         Ts \<lparr>ts_year = 1996, ts_month = 7, ts_day = 4, ts_time = 28800\<rparr>, Num 1, Num 10],
        [Num 2, PyNone, NaN,
         Ts \<lparr>ts_year = 1996, ts_month = 7, ts_day = 4, ts_time = 61200\<rparr>, Num 9, NaN],
        [Num 3, Str ''ZZZZZ'', Num 1, NaN, Num 1, Num 5],
        [Num 4, NaN, Num 1,
         Ts \<lparr>ts_year = 1996, ts_month = 7, ts_day = 5, ts_time = 0\<rparr>, Num 1, Num 1]]"

definition ex_order_details :: frame where
  "ex_order_details =
     mk_frame [''OrderID'', ''ProductID'', ''UnitPrice'', ''Quantity'', ''Discount'']
       [[Num 1, Num 1, Num 10, Num 2, Num 0],
        [Num 1, Num 2, Num 5, Num 1, Num (1 / 10)]]"

definition ex_customers :: frame where
  "ex_customers =
     mk_frame [''CustomerID'', ''CompanyName'', ''City'', ''Country'', ''Phone'']
       [[Str ''ALFKI'', Str ''Alfreds Futterkiste'', Str ''Berlin'', Str ''Germany'',
         Str ''030-0074321'']]"

definition ex_products :: frame where
  "ex_products =
     mk_frame [''ProductID'', ''ProductName'', ''CategoryID'', ''UnitPrice'', ''Discontinued'']
       [[Num 1, Str ''Chai'', Num 1, Num 18, Num 0],
        [Num 2, Str ''Chang'', Num 7, Num 19, NaN]]"

definition ex_employees :: frame where
  "ex_employees =
     mk_frame [''EmployeeID'', ''FirstName'', ''LastName'', ''Title'', ''City'', ''Country'']
       [[Num 1, Str ''Nancy'', Str ''Davolio'', Str ''Sales Representative'', Str ''Seattle'',
         Str ''USA'']]"

definition ex_shippers :: frame where
  "ex_shippers =
     mk_frame [''ShipperID'', ''CompanyName'', ''Phone'']
       [[Num 1, Str ''Speedy Express'', Str ''(503) 555-9831'']]"

definition ex_categories :: frame where
  "ex_categories = mk_frame [''CategoryID'', ''CategoryName''] [[Num 1, Str ''Beverages'']]"

definition env_run :: env where
  "env_run =
     mk_env []
       [(''Orders'', ex_orders), (''Order Details'', ex_order_details),
        (''Customers'', ex_customers), (''Products'', ex_products),
        (''Employees'', ex_employees), (''Shippers'', ex_shippers),
        (''Categories'', ex_categories)]"

text \<open>The orders of this run after lines 143 to 149, and what the run returns.\<close>

definition ex_orders_clean :: frame where
  "ex_orders_clean =
     map_col ''OrderDate'' (fillna (Ts default_date))
       (map_col ''OrderDate'' (\<lambda>c. of_datetime (to_datetime env_run c)) ex_orders)"

definition env_run_out :: star where
  "env_run_out = projr (build_star_schema env_run)"

text \<open>No table at all.\<close>

definition env_empty :: env where
  "env_empty = mk_env [] []"

section \<open>Basic facts\<close>

lemma bind_Inr [simp]: "bind (Inr x) f = f x" by (simp add: bind_def)
lemma bind_Inl [simp]: "bind (Inl e) f = Inl e" by (simp add: bind_def)
lemma bind_eq_Inr: "bind m f = Inr y \<longleftrightarrow> (\<exists>x. m = Inr x \<and> f x = Inr y)"
  by (cases m) auto

lemma has_columns_Inr: "has_columns cols df = Inr u \<longleftrightarrow> set cols \<subseteq> set (columns df)"
proof -
  have "filter (\<lambda>c. c \<notin> set (columns df)) cols = [] \<longleftrightarrow> set cols \<subseteq> set (columns df)"
    by (auto simp: filter_empty_conv)
  then show ?thesis
    by (cases "filter (\<lambda>c. c \<notin> set (columns df)) cols") (auto simp: has_columns_def)
qed


lemma keep_first_keys:
  "key_of ks ` set (keep_first ks seen rs) = key_of ks ` set rs - set seen"
  by (induction rs arbitrary: seen) auto

lemma keep_first_distinct: "distinct (map (key_of ks) (keep_first ks seen rs))"
  by (induction rs arbitrary: seen) (auto simp: keep_first_keys)

lemma keep_first_first:
  "r \<in> set (keep_first ks seen rs) \<Longrightarrow>
   \<exists>pre post. rs = pre @ r # post \<and> key_of ks r \<notin> key_of ks ` set pre \<and> key_of ks r \<notin> set seen"
proof (induction rs arbitrary: seen)
  case Nil
  then show ?case by simp
next
  case (Cons a rs)
  show ?case
  proof (cases "key_of ks a \<in> set seen")
    case True
    with Cons.prems have "r \<in> set (keep_first ks seen rs)" by simp
    from Cons.IH[OF this] obtain pre post where
      *: "rs = pre @ r # post" "key_of ks r \<notin> key_of ks ` set pre" "key_of ks r \<notin> set seen" by blast
    with True have "a # rs = (a # pre) @ r # post \<and> key_of ks r \<notin> key_of ks ` set (a # pre) \<and> key_of ks r \<notin> set seen"
      by auto
    then show ?thesis by blast
  next
    case False
    with Cons.prems have "r = a \<or> r \<in> set (keep_first ks (key_of ks a # seen) rs)" by simp
    then show ?thesis
    proof
      assume "r = a"
      with False have "a # rs = [] @ r # rs \<and> key_of ks r \<notin> key_of ks ` set [] \<and> key_of ks r \<notin> set seen" by simp
      then show ?thesis by blast
    next
      assume "r \<in> set (keep_first ks (key_of ks a # seen) rs)"
      from Cons.IH[OF this] obtain pre post where
        *: "rs = pre @ r # post" "key_of ks r \<notin> key_of ks ` set pre" "key_of ks r \<notin> set (key_of ks a # seen)" by blast
      then have "a # rs = (a # pre) @ r # post \<and> key_of ks r \<notin> key_of ks ` set (a # pre) \<and> key_of ks r \<notin> set seen"
        by auto
      then show ?thesis by blast
    qed
  qed
qed

lemma traverse_Inr_iff: "traverse f xs = Inr ys \<longleftrightarrow> list_all2 (\<lambda>x y. f x = Inr y) xs ys"
proof (induction xs arbitrary: ys)
  case Nil
  then show ?case by auto
next
  case (Cons x xs)
  then show ?case by (cases ys) (auto simp: bind_eq_Inr)
qed

lemma traverse_map:
  "traverse f xs = Inr ys \<Longrightarrow> ys = map (\<lambda>x. projr (f x)) xs"
  by (induction xs arbitrary: ys) (auto simp: bind_eq_Inr)

lemma traverse_ok: "traverse f xs = Inr ys \<Longrightarrow> x \<in> set xs \<Longrightarrow> \<exists>y. f x = Inr y"
  by (induction xs arbitrary: ys) (auto simp: bind_eq_Inr)


lemma try_set_col_rows:
  assumes "try_set_col c f df = Inr df'"
  shows "rows df' = map (\<lambda>r. r(c := projr (f r))) (rows df)"
    and "columns df' = (if c \<in> set (columns df) then columns df else columns df @ [c])"
proof -
  from assms obtain vs where vs: "traverse f (rows df) = Inr vs" and d: "df' = assign_col c vs df"
    by (auto simp: try_set_col_def bind_eq_Inr)
  from traverse_map[OF vs] have "vs = map (\<lambda>r. projr (f r)) (rows df)" .
  then show "rows df' = map (\<lambda>r. r(c := projr (f r))) (rows df)"
    by (simp add: d assign_col_def zip_map2 zip_same_conv_map)
  show "columns df' = (if c \<in> set (columns df) then columns df else columns df @ [c])"
    by (simp add: d assign_col_def)
qed

lemma try_set_col_ok:
  "try_set_col c f df = Inr df' \<Longrightarrow> r \<in> set (rows df) \<Longrightarrow> \<exists>v. f r = Inr v"
  by (auto simp: try_set_col_def bind_eq_Inr dest: traverse_ok)

lemma rows_map_col [simp]: "rows (map_col c f df) = map (\<lambda>r. r(c := f (r c))) (rows df)"
  by (simp add: map_col_def)
lemma columns_map_col [simp]: "columns (map_col c f df) = columns df"
  by (simp add: map_col_def)
lemma rows_dropna [simp]: "rows (dropna ks df) = filter (\<lambda>r. \<forall>c\<in>set ks. \<not> isna (r c)) (rows df)"
  by (simp add: dropna_def)
lemma columns_dropna [simp]: "columns (dropna ks df) = columns df"
  by (simp add: dropna_def)
lemma rows_drop_column [simp]: "rows (drop_column c df) = rows df"
  by (simp add: drop_column_def)
lemma columns_drop_column [simp]: "columns (drop_column c df) = removeAll c (columns df)"
  by (simp add: drop_column_def)
lemma rows_rename:
  "rows (rename old new df) = (if old \<in> set (columns df) then map (\<lambda>r. r(new := r old)) (rows df) else rows df)"
  by (simp add: rename_def)
lemma columns_rename:
  "columns (rename old new df) =
     (if old \<in> set (columns df) then map (\<lambda>c. if c = old then new else c) (columns df)
      else columns df)"
  by (simp add: rename_def)

lemma drop_duplicates_Inr:
  "drop_duplicates ks df = Inr df' \<longleftrightarrow>
     set ks \<subseteq> set (columns df) \<and> df' = df\<lparr>rows := keep_first ks [] (rows df)\<rparr>"
  by (auto simp: drop_duplicates_def bind_eq_Inr has_columns_Inr)

lemma select_Inr:
  "select cols df = Inr df' \<longleftrightarrow> set cols \<subseteq> set (columns df) \<and> df' = df\<lparr>columns := cols\<rparr>"
  by (auto simp: select_def bind_eq_Inr has_columns_Inr)

lemma not_none_Inr: "not_none msg d = Inr df \<longleftrightarrow> d = Some df"
  by (simp add: not_none_def split: option.splits)

lemma has_columns_ok: "set cols \<subseteq> set (columns df) \<Longrightarrow> has_columns cols df = Inr ()"
  by (simp add: has_columns_Inr)







lemma int64_exact: "- (2 ^ 63) \<le> a \<Longrightarrow> a < 2 ^ 63 \<Longrightarrow> int64 a = a"
  unfolding int64_def by (simp add: sint_sbintrunc' signed_take_bit_int_eq_self)

lemma trunc_of_int [simp]: "trunc (of_int n) = n"
  by (simp add: trunc_def)

lemma trunc_of_nat [simp]: "trunc (of_nat n) = int n"
  by (simp add: trunc_def)

lemma trunc_0 [simp]: "trunc 0 = 0"
  by (simp add: trunc_def)


section \<open>The reconciler\<close>


lemma isna_of_numeric [simp]: "isna (of_numeric n) \<longleftrightarrow> n = None"
  by (cases n rule: of_numeric.cases) simp_all








lemma combine_excel:
  "load_excel E t = Some x \<Longrightarrow>
   combine E t s =
     (case adjust_excel_ids E t x of
        Inl e \<Rightarrow> Inl e
      | Inr x' \<Rightarrow> Inr (Some (case s of None \<Rightarrow> x' | Some d \<Rightarrow> pd_concat x' d)))"
  by (cases s; cases "adjust_excel_ids E t x") (simp_all add: combine_def)




lemma key_of_eq_iff: "key_of ks r = key_of ks x \<longleftrightarrow> (\<forall>k\<in>set ks. r k = x k)"
  by (simp add: key_of_def)

lemma merge_sources_dedupe_rows:
  assumes "combine E t (load_sql E t) = Inr (Some a)"
      and "merge_sources E t ks True = Inr (Some df)"
  shows "rows df = filter (\<lambda>r. \<forall>c\<in>set ks. \<not> isna (r c)) (keep_first ks [] (rows a))"
    and "columns df = removeAll ''_source'' (columns a)"
  using assms
  by (auto simp: merge_sources_def drop_duplicates_def dropna_def drop_column_def bind_eq_Inr)







lemmas ex_defs = mk_env_def mk_frame_def mk_row_def ex_customers_sql_def ex_customers_excel_def
  ex_orders_excel_def ex_orders_shifted_def ex_customers_merged_def ex_orders_negative_def
  ex_no_key_column_def ex_orders_infinite_def env_single_def env_both_def env_malformed_def
  env_infinite_def
lemmas name_defs = order_bearing_def table_name_def py_strip_def py_replace_def py_lower_def
  lower_char_def is_space_def

lemma ob_customers: "\<not> order_bearing ''Customers''" by (simp add: name_defs)


subsection \<open>One origin only\<close>




subsection \<open>Deduplication\<close>

text \<open>
  Claim C4. With both origins present and \<open>dedupe\<close> true, the reconciled table has the
  columns of the concatenation of the (adjusted) spreadsheet and the database table,
  less \<^verbatim>\<open>_source\<close>; it has no row with a null in a key column, no two rows with the
  same key, every row of it is the first row with its key in the concatenation of the
  spreadsheet rows and the database rows, and every key without a null that occurs in
  the concatenation occurs in it.
\<close>

theorem dedupe_first_wins:
  assumes "load_excel E t = Some x" and "load_sql E t = Some s"
      and "adjust_excel_ids E t x = Inr x'"
      and "merge_sources E t ks True = Inr (Some df)"
  shows "columns df = removeAll ''_source'' (columns (pd_concat x' s)) \<and>
         (\<forall>r\<in>set (rows df). \<forall>k\<in>set ks. \<not> isna (r k)) \<and>
         distinct (map (key_of ks) (rows df)) \<and>
         (\<forall>r\<in>set (rows df). \<exists>pre post.
             rows (pd_concat x' s) = pre @ r # post \<and>
             (\<forall>p\<in>set pre. key_of ks p \<noteq> key_of ks r)) \<and>
         (\<forall>y\<in>set (rows (pd_concat x' s)). (\<forall>k\<in>set ks. \<not> isna (y k)) \<longrightarrow>
             (\<exists>r\<in>set (rows df). key_of ks r = key_of ks y))"
proof -
  let ?a = "pd_concat x' s"
  have c: "combine E t (load_sql E t) = Inr (Some ?a)"
    using assms(1-3) by (simp add: combine_excel)
  have df: "rows df = filter (\<lambda>r. \<forall>c\<in>set ks. \<not> isna (r c)) (keep_first ks [] (rows ?a))"
    by (rule merge_sources_dedupe_rows(1)[OF c assms(4)])
  have 0: "columns df = removeAll ''_source'' (columns ?a)"
    by (rule merge_sources_dedupe_rows(2)[OF c assms(4)])
  have 1: "\<forall>r\<in>set (rows df). \<forall>k\<in>set ks. \<not> isna (r k)"
    by (simp add: df)
  have 2: "distinct (map (key_of ks) (rows df))"
    unfolding df by (rule distinct_map_filter) (rule keep_first_distinct)
  have 3: "\<forall>r\<in>set (rows df). \<exists>pre post.
             rows ?a = pre @ r # post \<and> (\<forall>p\<in>set pre. key_of ks p \<noteq> key_of ks r)"
  proof
    fix r assume "r \<in> set (rows df)"
    then have "r \<in> set (keep_first ks [] (rows ?a))" by (simp add: df)
    from keep_first_first[OF this] obtain pre post where
      "rows ?a = pre @ r # post" "key_of ks r \<notin> key_of ks ` set pre" by blast
    then have "rows ?a = pre @ r # post \<and> (\<forall>p\<in>set pre. key_of ks p \<noteq> key_of ks r)"
      by (metis imageI)
    then show "\<exists>pre post. rows ?a = pre @ r # post \<and> (\<forall>p\<in>set pre. key_of ks p \<noteq> key_of ks r)"
      by blast
  qed
  have 4: "\<forall>y\<in>set (rows ?a). (\<forall>k\<in>set ks. \<not> isna (y k)) \<longrightarrow>
             (\<exists>r\<in>set (rows df). key_of ks r = key_of ks y)"
  proof (intro ballI impI)
    fix y assume y: "y \<in> set (rows ?a)" and nn: "\<forall>k\<in>set ks. \<not> isna (y k)"
    from y have "key_of ks y \<in> key_of ks ` set (keep_first ks [] (rows ?a))"
      by (simp add: keep_first_keys)
    then obtain r where r: "r \<in> set (keep_first ks [] (rows ?a))" "key_of ks r = key_of ks y"
      by auto
    from r(2) nn have "\<forall>k\<in>set ks. \<not> isna (r k)" by (simp add: key_of_eq_iff)
    with r show "\<exists>r\<in>set (rows df). key_of ks r = key_of ks y"
      by (auto simp: df)
  qed
  from 0 1 2 3 4 show ?thesis by blast
qed

theorem dedupe_first_wins_witness:
  "load_excel env_both ''Customers'' = Some ex_customers_excel \<and>
   load_sql env_both ''Customers'' = Some ex_customers_sql \<and>
   adjust_excel_ids env_both ''Customers'' ex_customers_excel = Inr ex_customers_excel \<and>
   merge_sources env_both ''Customers'' [''CustomerID''] True = Inr (Some ex_customers_merged) \<and>
   columns ex_customers_merged = [''CustomerID'', ''CompanyName''] \<and>
   map (\<lambda>r. map r [''CustomerID'', ''CompanyName'']) (rows ex_customers_merged) =
     [[Str ''ALFKI'', Str ''Alfreds (spreadsheet)''], [Str ''BONAP'', Str ''Bon app'']] \<and>
   distinct (map (key_of [''CustomerID'']) (rows ex_customers_merged))"
proof -
  have 1: "load_excel env_both ''Customers'' = Some ex_customers_excel"
    and 2: "load_sql env_both ''Customers'' = Some ex_customers_sql"
    by (simp_all add: env_both_def mk_env_def)
  have 3: "adjust_excel_ids env_both ''Customers'' ex_customers_excel = Inr ex_customers_excel"
    by (simp add: adjust_excel_ids_def ob_customers)
  have 4: "merge_sources env_both ''Customers'' [''CustomerID''] True = Inr (Some ex_customers_merged)"
    by (simp add: ob_customers ex_defs merge_sources_def combine_def adjust_excel_ids_def
          drop_duplicates_def has_columns_def dropna_def drop_column_def key_of_def pd_concat_def
          fill_def)
  have 5: "map (\<lambda>r. map r [''CustomerID'', ''CompanyName'']) (rows ex_customers_merged) =
     [[Str ''ALFKI'', Str ''Alfreds (spreadsheet)''], [Str ''BONAP'', Str ''Bon app'']]"
    by (simp add: ex_defs fill_def)
  have 6: "columns ex_customers_merged = [''CustomerID'', ''CompanyName'']"
    by (simp add: ex_defs)
  from dedupe_first_wins[OF 1 2 3 4]
  have "distinct (map (key_of [''CustomerID'']) (rows ex_customers_merged))" by blast
  with 1 2 3 4 5 6 show ?thesis by blast
qed

subsection \<open>The shift of spreadsheet identifiers\<close>





subsection \<open>When the reconciler raises\<close>





end
